theory Spec2Isabelle
  imports Complex_Main "HOL-Library.Sublist"
begin

section \<open>The keys lookup of sandpit/keys\_server\_global.py\<close>

text \<open>
  A shallow embedding of \<^verbatim>\<open>GLOBAL_FLOODKeysLookup\<close>. A pandas DataFrame is a list of
  rows, a row is a record with one field per column, and a column that does not exist
  yet, or a cell that is NaN, is \<open>None\<close>. A vectorised statement
  \<^verbatim>\<open>df.loc[mask, col] = v\<close> is \<open>assign_where mask (\<lambda>r. r\<lparr>col := v\<rparr>)\<close>: the mask
  is evaluated row by row on the frame as it is just before the statement. Floating
  point columns are read as reals; the only operations on them are comparisons with
  constants, one multiplication and \<open>floor\<close>.
\<close>

subsection \<open>Constants of the oasislmf library and of the constants module\<close>

text \<open>
  \<^verbatim>\<open>constants.FLUVIAL_ID\<close>, \<^verbatim>\<open>PLUVIAL_ID\<close> and \<^verbatim>\<open>COASTAL_ID\<close> are the oasislmf
  peril ids of river flood, flash flood and storm surge (see
  useful\_scripts/event\_footprint.py); the default of \<^verbatim>\<open>locperilscovered\<close> lists the
  same three ids.
\<close>

definition FLUVIAL_ID :: string where "FLUVIAL_ID = ''ORF''"
definition PLUVIAL_ID :: string where "PLUVIAL_ID = ''OSF''"
definition COASTAL_ID :: string where "COASTAL_ID = ''WSS''"

text \<open>\<^verbatim>\<open>PERIL_GROUPS[...]["id"]\<close> for the three groups the lookup knows.\<close>

definition PERIL_GROUP_all :: string where "PERIL_GROUP_all = ''AA1''"
definition PERIL_GROUP_flood_wo_storm_surge :: string where
  "PERIL_GROUP_flood_wo_storm_surge = ''OO1''"
definition PERIL_GROUP_windstorm_w_storm_surge :: string where
  "PERIL_GROUP_windstorm_w_storm_surge = ''WW1''"

text \<open>\<^verbatim>\<open>SUPPORTED_COVERAGE_TYPES[...]["id"]\<close>.\<close>

definition COVERAGE_buildings :: int where "COVERAGE_buildings = 1"
definition COVERAGE_contents :: int where "COVERAGE_contents = 3"
definition COVERAGE_bi :: int where "COVERAGE_bi = 4"

text \<open>\<^verbatim>\<open>SUPPORTED_COVERAGE_TYPES_BY_ID\<close>: the coverage's name by its id.\<close>

definition SUPPORTED_COVERAGE_TYPES_BY_ID :: "int \<Rightarrow> string option" where
  "SUPPORTED_COVERAGE_TYPES_BY_ID c =
     (if c = 1 then Some ''buildings'' else if c = 2 then Some ''other''
      else if c = 3 then Some ''contents'' else if c = 4 then Some ''bi'' else None)"

text \<open>\<^verbatim>\<open>OASIS_KEYS_STATUS[...]["id"]\<close> and \<^verbatim>\<open>OASIS_KEYS_FL\<close>.\<close>

definition STATUS_success :: string where "STATUS_success = ''success''"
definition STATUS_notatrisk :: string where "STATUS_notatrisk = ''notatrisk''"
definition STATUS_fail_v :: string where "STATUS_fail_v = ''fail_v''"
definition STATUS_fail_ap :: string where "STATUS_fail_ap = ''fail_ap''"
definition STATUS_fail :: string where "STATUS_fail = ''fail''"
definition OASIS_KEYS_FL :: string where "OASIS_KEYS_FL = ''fail''"

text \<open>The string \<^verbatim>\<open>FLUVIAL_ID + ";" + PLUVIAL_ID + ";" + COASTAL_ID\<close>.\<close>

definition ALL_PERILS :: string where
  "ALL_PERILS = FLUVIAL_ID @ '';'' @ PLUVIAL_ID @ '';'' @ COASTAL_ID"

subsection \<open>Python values and strings\<close>

datatype error = KeyError | ValueError | AttributeError

text \<open>
  \<^verbatim>\<open>Series.all()\<close> returns a \<^verbatim>\<open>numpy.bool_\<close>, which is never the object
  \<^verbatim>\<open>False\<close> of Python: \<^verbatim>\<open>x is False\<close> compares identities.
\<close>

datatype pybool = PyBool bool | NpBool bool

definition series_all :: "bool list \<Rightarrow> pybool" where
  "series_all bs = NpBool (list_all (\<lambda>b. b) bs)"

definition is_False :: "pybool \<Rightarrow> bool" where
  "is_False v = (v = PyBool False)"

definition char_upper :: "char \<Rightarrow> char" where
  "char_upper c =
     (let n = (of_char c :: nat) in if 97 \<le> n \<and> n \<le> 122 then char_of (n - 32) else c)"

definition char_lower :: "char \<Rightarrow> char" where
  "char_lower c =
     (let n = (of_char c :: nat) in if 65 \<le> n \<and> n \<le> 90 then char_of (n + 32) else c)"

text \<open>\<^verbatim>\<open>s.replace(" ", "").upper()\<close> and \<^verbatim>\<open>str.lower\<close>, on ASCII.\<close>

definition normalise_postalcode :: "string \<Rightarrow> string" where
  "normalise_postalcode s = map char_upper (filter (\<lambda>c. c \<noteq> CHR '' '') s)"

definition str_lower :: "string \<Rightarrow> string" where
  "str_lower s = map char_lower s"

text \<open>\<^verbatim>\<open>Series.str.contains(peril)\<close> for a pattern without regex metacharacters.\<close>

definition str_contains :: "string \<Rightarrow> string \<Rightarrow> bool" where
  "str_contains s p = sublist p s"

text \<open>\<^verbatim>\<open>s.split(sep)\<close> for a separator of one character.\<close>

fun split_on :: "char \<Rightarrow> string \<Rightarrow> string list" where
  "split_on c [] = [[]]"
| "split_on c (x # xs) =
     (if x = c then [] # split_on c xs
      else (case split_on c xs of [] \<Rightarrow> [[x]] | w # ws \<Rightarrow> (x # w) # ws))"

definition is_digit :: "char \<Rightarrow> bool" where
  "is_digit c = (48 \<le> (of_char c :: nat) \<and> (of_char c :: nat) \<le> 57)"

definition is_space :: "char \<Rightarrow> bool" where
  "is_space c = ((of_char c :: nat) \<in> {9, 10, 11, 12, 13, 28, 29, 30, 31, 32})"

definition strip :: "string \<Rightarrow> string" where
  "strip s = rev (dropWhile is_space (rev (dropWhile is_space s)))"

fun underscores_ok :: "string \<Rightarrow> bool" where
  "underscores_ok (a # b # cs) =
     ((a = CHR ''_'' \<longrightarrow> is_digit b) \<and> (is_digit a \<or> a = CHR ''_'') \<and> underscores_ok (b # cs))"
| "underscores_ok [a] = is_digit a"
| "underscores_ok [] = False"

definition digits_value :: "string \<Rightarrow> int" where
  "digits_value ds = foldl (\<lambda>acc c. 10 * acc + (int (of_char c) - 48)) 0 ds"

text \<open>
  \<^verbatim>\<open>int(s)\<close> on a string: surrounding whitespace, an optional sign, decimal digits with
  single underscores between them (ASCII digits only); anything else raises ValueError.
\<close>

definition py_int :: "string \<Rightarrow> error + int" where
  "py_int s =
     (let t = strip s;
          neg = (t \<noteq> [] \<and> hd t = CHR ''-'');
          body = (if t \<noteq> [] \<and> (hd t = CHR ''-'' \<or> hd t = CHR ''+'') then tl t else t)
      in if body \<noteq> [] \<and> is_digit (hd body) \<and> underscores_ok body
         then Inr ((if neg then -1 else 1) * digits_value (filter is_digit body))
         else Inl ValueError)"

definition digit_char :: "nat \<Rightarrow> char" where
  "digit_char d = char_of (48 + d)"

function show_nat :: "nat \<Rightarrow> string" where
  "show_nat n = (if n < 10 then [digit_char n] else show_nat (n div 10) @ [digit_char (n mod 10)])"
  by pat_completeness auto
termination
  by (relation "measure (\<lambda>n. n)") auto

declare show_nat.simps [simp del]

text \<open>\<^verbatim>\<open>json.dumps\<close> of an integer.\<close>

definition show_int :: "int \<Rightarrow> string" where
  "show_int i = (if i < 0 then CHR ''-'' # show_nat (nat (- i)) else show_nat (nat i))"

subsection \<open>Frames\<close>

text \<open>A cell of the column \<^verbatim>\<open>floorsoccupied\<close>: text on input, an integer once parsed.\<close>

datatype cell = StrCell string | IntCell int

text \<open>
  The working frame (\<^verbatim>\<open>loc_df\<close>, then \<^verbatim>\<open>keys_df\<close>): the columns of
  \<^verbatim>\<open>USED_LOC_DF_COLUMNS\<close>, then every column the lookup adds.
\<close>

record row =
  loc_id :: int
  accnumber :: int
  portnumber :: int
  locnumber :: int
  user_vulnerability_id :: int
  locperilscovered :: string
  buildingtype :: int
  occupancycode :: int
  constructioncode :: int
  numberofstoreys :: int
  floorsoccupied :: cell
  firstfloorheight :: real
  firstfloorheightunit :: int
  yearbuilt :: int
  bipoi :: real
  latitude :: "real option"
  longitude :: "real option"
  postalcode :: string
  mobilehome_cat :: "bool option"
  yearbuilt_cat :: "string option"
  building_cat :: "string option"
  mcm_code :: "int option"
  ffh_cat :: "real option"
  bipoi_cat :: "int option"
  pc_lat :: "real option"
  pc_lon :: "real option"
  coveragetype_id :: "int option"
  peril_id :: "string option"
  peril_type :: "string option"
  vulnerability_id :: "int option"
  lat_id :: "int option"
  lon_id :: "int option"
  at_risk :: "bool option"
  status :: "string option"
  message :: "string option"
  catchment_id :: "int option"
  area_peril_id :: "int option"
  model_data :: "string option"

text \<open>
  The frame \<^verbatim>\<open>process_locations\<close> receives: its column names, and per row the value
  of every column the lookup reads (a value under a name that is not among the columns
  is never read). Text and integer columns arrive typed; a missing number is NaN.
\<close>

record raw_row =
  raw_loc_id :: int
  raw_accnumber :: int
  raw_portnumber :: int
  raw_locnumber :: int
  raw_locuserdef1 :: int
  raw_locperilscovered :: string
  raw_buildingtype :: int
  raw_occupancycode :: int
  raw_constructioncode :: int
  raw_numberofstoreys :: int
  raw_floorsoccupied :: string
  raw_firstfloorheight :: "real option"
  raw_firstfloorheightunit :: int
  raw_yearbuilt :: int
  raw_bipoi :: "real option"
  raw_latitude :: "real option"
  raw_longitude :: "real option"
  raw_postalcode :: string

record raw_df =
  raw_columns :: "string list"
  raw_rows :: "raw_row list"

text \<open>The keys frame \<^verbatim>\<open>process_locations\<close> returns (its last column selection).\<close>

record result_key =
  rk_loc_id :: int
  rk_peril_id :: "string option"
  rk_coverage_type :: "int option"
  rk_vulnerability_id :: "int option"
  rk_status :: "string option"
  rk_message :: "string option"
  rk_model_data :: "string option"
  rk_catchment_id :: "int option"
  rk_lat_id :: "int option"
  rk_lon_id :: "int option"
  rk_area_peril_id :: "int option"

subsection \<open>Reference tables\<close>

text \<open>
  A cell of the \<^verbatim>\<open>peril_type\<close> column of vulnerability\_dict.csv: a numeric code as
  read, or the string \<^verbatim>\<open>__init__\<close> writes over it.
\<close>

datatype peril_cell = PerilCode int | PerilStr string

text \<open>
  Modelled from the spec: the header of vulnerability\_dict.csv (a data file), which the
  spec gives as VulnerabilityTable(mcm\_code, coverage, peril\_type, override\_id
  \<rightarrow> vulnerability\_id).
\<close>

record vulnerability =
  v_mcm_code :: int
  v_coveragetype_id :: int
  v_peril_type :: peril_cell
  v_user_vulnerability_id :: int
  v_vulnerability_id :: int

text \<open>
  Modelled from the spec: the headers of yearbuilt.csv, MCM\_OED\_residential.csv and
  MCM\_OED\_nonresidential.csv (data files): YearBuiltCategory(yearbuilt \<rightarrow> category);
  category and year-built category \<rightarrow> mcm\_code; occupancycode \<rightarrow> mcm\_code.
\<close>

record yearbuilt_entry =
  yb_yearbuilt :: int
  yb_yearbuilt_cat :: string

record mcm_res_entry =
  mr_building_cat :: string
  mr_yearbuilt_cat :: string
  mr_mcm_code :: int

record mcm_nonres_entry =
  mn_occupancycode :: int
  mn_mcm_code :: int

text \<open>postcode\_dict.csv with its columns renamed by \<^verbatim>\<open>__init__\<close>.\<close>

record postcode_entry =
  pc_postalcode :: string
  pce_lat :: real
  pce_lon :: real

text \<open>wet\_area\_peril.parquet (see useful\_scripts/hack\_wet\_area\_peril.py).\<close>

record at_risk_entry =
  ar_lat_id :: int
  ar_lon_id :: int
  ar_peril_id :: string

text \<open>
  The lookup object: the tables \<^verbatim>\<open>__init__\<close> loads, and the raster uk.tif as the
  function from (longitude, latitude) to the pixel read there, \<open>None\<close> where the read
  gives no pixel (\<^verbatim>\<open>catchments_rasta[0][0]\<close> raises IndexError).
\<close>

record lookup =
  vulnerability_df :: "vulnerability list"
  mcm_res_df :: "mcm_res_entry list"
  mcm_nonres_df :: "mcm_nonres_entry list"
  postcode_df :: "postcode_entry list"
  yearbuilt_df :: "yearbuilt_entry list"
  at_risk_df :: "at_risk_entry list"
  catchments_tif :: "real \<Rightarrow> real \<Rightarrow> int option"

subsection \<open>pandas operations\<close>

text \<open>\<^verbatim>\<open>df.loc[mask, cols] = values\<close>.\<close>

definition assign_where :: "('r \<Rightarrow> bool) \<Rightarrow> ('r \<Rightarrow> 'r) \<Rightarrow> 'r list \<Rightarrow> 'r list" where
  "assign_where sel upd df = map (\<lambda>r. if sel r then upd r else r) df"

text \<open>
  \<^verbatim>\<open>left.merge(right, how="left")\<close>: the left rows in order, each once per right row
  that agrees with it on the shared columns (\<open>agree\<close>), in the right table's order, and
  once with NaN in the right table's columns when no right row agrees.
\<close>

definition merge_left ::
  "('l \<Rightarrow> 'r \<Rightarrow> bool) \<Rightarrow> ('l \<Rightarrow> 'r option \<Rightarrow> 'o) \<Rightarrow> 'l list \<Rightarrow> 'r list \<Rightarrow> 'o list" where
  "merge_left agree combine left right =
     concat (map (\<lambda>l. case filter (agree l) right of
                         [] \<Rightarrow> [combine l None]
                       | m # ms \<Rightarrow> map (\<lambda>r. combine l (Some r)) (m # ms)) left)"

text \<open>\<^verbatim>\<open>Series.fillna(v)\<close> on one cell, and \<^verbatim>\<open>isnull\<close>/\<^verbatim>\<open>notna\<close>.\<close>

definition fillna :: "'a \<Rightarrow> 'a option \<Rightarrow> 'a option" where
  "fillna v c = (case c of None \<Rightarrow> Some v | Some x \<Rightarrow> Some x)"

definition isnull :: "'a option \<Rightarrow> bool" where
  "isnull c = (c = None)"

definition notna :: "'a option \<Rightarrow> bool" where
  "notna c = (c \<noteq> None)"

subsection \<open>\<^verbatim>\<open>__init__\<close>: the reference tables\<close>

definition coverages :: "int list" where
  "coverages = [COVERAGE_buildings, COVERAGE_contents, COVERAGE_bi]"

definition perils :: "string list" where
  "perils = [FLUVIAL_ID, PLUVIAL_ID, COASTAL_ID]"

definition init_vulnerability_df :: "vulnerability list \<Rightarrow> vulnerability list" where
  "init_vulnerability_df csv =
     (let df = csv;
          df = assign_where (\<lambda>v. v_coveragetype_id v = 1)
                 (\<lambda>v. v\<lparr>v_coveragetype_id := COVERAGE_buildings\<rparr>) df;
          df = assign_where (\<lambda>v. v_coveragetype_id v = 3)
                 (\<lambda>v. v\<lparr>v_coveragetype_id := COVERAGE_contents\<rparr>) df;
          df = assign_where (\<lambda>v. v_coveragetype_id v = 4)
                 (\<lambda>v. v\<lparr>v_coveragetype_id := COVERAGE_bi\<rparr>) df;
          df = assign_where (\<lambda>v. v_peril_type v = PerilCode 1)
                 (\<lambda>v. v\<lparr>v_peril_type := PerilStr FLUVIAL_ID\<rparr>) df;
          df = assign_where (\<lambda>v. v_peril_type v = PerilCode 2)
                 (\<lambda>v. v\<lparr>v_peril_type := PerilStr PLUVIAL_ID\<rparr>) df;
          df = assign_where (\<lambda>v. v_peril_type v = PerilCode 3)
                 (\<lambda>v. v\<lparr>v_peril_type := PerilStr COASTAL_ID\<rparr>) df;
          df = assign_where (\<lambda>v. v_peril_type v = PerilCode (- 9999))
                 (\<lambda>v. v\<lparr>v_peril_type := PerilStr ALL_PERILS\<rparr>) df
      in df)"

definition init_postcode_df :: "postcode_entry list \<Rightarrow> postcode_entry list" where
  "init_postcode_df csv =
     map (\<lambda>p. p\<lparr>pc_postalcode := normalise_postalcode (pc_postalcode p)\<rparr>) csv"

text \<open>The tables as \<^verbatim>\<open>__init__\<close> leaves them on the lookup object.\<close>

definition init :: "vulnerability list \<Rightarrow> mcm_res_entry list \<Rightarrow> mcm_nonres_entry list \<Rightarrow>
    postcode_entry list \<Rightarrow> yearbuilt_entry list \<Rightarrow> at_risk_entry list \<Rightarrow>
    (real \<Rightarrow> real \<Rightarrow> int option) \<Rightarrow> lookup" where
  "init vulnerability_csv mcm_res_csv mcm_nonres_csv postcode_csv yearbuilt_csv
        wet_area_peril uk_tif =
     \<lparr>vulnerability_df = init_vulnerability_df vulnerability_csv,
      mcm_res_df = mcm_res_csv,
      mcm_nonres_df = mcm_nonres_csv,
      postcode_df = init_postcode_df postcode_csv,
      yearbuilt_df = yearbuilt_csv,
      at_risk_df = wet_area_peril,
      catchments_tif = uk_tif\<rparr>"

subsection \<open>Field defaults (the first part of \<^verbatim>\<open>process_locations\<close>)\<close>

text \<open>
  One pass of the loop over \<^verbatim>\<open>default_field_values\<close>, by the field's type: the default
  when the column is absent; otherwise the value, with NaN (numbers), the empty string
  (text) or zero (integers) replaced by the default.
\<close>

definition default_str :: "string list \<Rightarrow> string \<Rightarrow> string \<Rightarrow> string \<Rightarrow> string" where
  "default_str cols key dflt v = (if key \<notin> set cols then dflt else if v = [] then dflt else v)"

definition default_int :: "string list \<Rightarrow> string \<Rightarrow> int \<Rightarrow> int \<Rightarrow> int" where
  "default_int cols key dflt v = (if key \<notin> set cols then dflt else if v = 0 then dflt else v)"

definition default_float :: "string list \<Rightarrow> string \<Rightarrow> real \<Rightarrow> real option \<Rightarrow> real" where
  "default_float cols key dflt v =
     (if key \<notin> set cols then dflt else (case v of None \<Rightarrow> dflt | Some x \<Rightarrow> x))"

definition normalise_fields :: "raw_df \<Rightarrow> row list" where
  "normalise_fields df =
     (let cols = map str_lower (raw_columns df) in
      map (\<lambda>r.
        \<lparr>loc_id = raw_loc_id r,
         accnumber = raw_accnumber r,
         portnumber = raw_portnumber r,
         locnumber = raw_locnumber r,
         user_vulnerability_id = (if ''locuserdef1'' \<in> set cols then raw_locuserdef1 r else 0),
         locperilscovered =
           default_str cols ''locperilscovered'' ''ORF;OSF;WSS'' (raw_locperilscovered r),
         buildingtype = default_int cols ''buildingtype'' 0 (raw_buildingtype r),
         occupancycode = default_int cols ''occupancycode'' 1000 (raw_occupancycode r),
         constructioncode = default_int cols ''constructioncode'' 5000 (raw_constructioncode r),
         numberofstoreys = default_int cols ''numberofstoreys'' 0 (raw_numberofstoreys r),
         floorsoccupied = StrCell (default_str cols ''floorsoccupied'' ''0'' (raw_floorsoccupied r)),
         firstfloorheight = default_float cols ''firstfloorheight'' (- 999) (raw_firstfloorheight r),
         firstfloorheightunit =
           default_int cols ''firstfloorheightunit'' 1 (raw_firstfloorheightunit r),
         yearbuilt = default_int cols ''yearbuilt'' 0 (raw_yearbuilt r),
         bipoi = default_float cols ''bipoi'' 365 (raw_bipoi r),
         latitude = Some (default_float cols ''latitude'' 0 (raw_latitude r)),
         longitude = Some (default_float cols ''longitude'' 0 (raw_longitude r)),
         postalcode = default_str cols ''postalcode'' ''-1'' (raw_postalcode r),
         mobilehome_cat = None, yearbuilt_cat = None, building_cat = None, mcm_code = None,
         ffh_cat = None, bipoi_cat = None, pc_lat = None, pc_lon = None,
         coveragetype_id = None, peril_id = None, peril_type = None,
         vulnerability_id = None, lat_id = None, lon_id = None, at_risk = None,
         status = None, message = None, catchment_id = None, area_peril_id = None,
         model_data = None\<rparr>) (raw_rows df))"

subsection \<open>Building classification\<close>

definition get_mobile_home :: "row list \<Rightarrow> row list" where
  "get_mobile_home loc_df =
     (let loc_df = map (\<lambda>r. r\<lparr>mobilehome_cat := Some False\<rparr>) loc_df;
          loc_df = assign_where
                     (\<lambda>r. constructioncode r \<ge> 5350 \<and> constructioncode r < 5400
                          \<and> occupancycode r < 1100)
                     (\<lambda>r. r\<lparr>mobilehome_cat := Some True\<rparr>) loc_df
      in loc_df)"

definition get_mcm_code_residential ::
  "yearbuilt_entry list \<Rightarrow> mcm_res_entry list \<Rightarrow> row list \<Rightarrow> row list" where
  "get_mcm_code_residential yearbuilt_tab mcm_res_tab loc_df_res =
     (let df = merge_left (\<lambda>r y. yearbuilt r = yb_yearbuilt y)
                 (\<lambda>r y. r\<lparr>yearbuilt_cat := map_option yb_yearbuilt_cat y\<rparr>)
                 loc_df_res yearbuilt_tab;
          df = assign_where (\<lambda>r. mobilehome_cat r = Some True)
                 (\<lambda>r. r\<lparr>building_cat := Some ''bungalow''\<rparr>) df;
          df = assign_where
                 (\<lambda>r. buildingtype r = 1 \<and> numberofstoreys r = 1 \<and> isnull (building_cat r))
                 (\<lambda>r. r\<lparr>building_cat := Some ''bungalow''\<rparr>) df;
          df = assign_where (\<lambda>r. buildingtype r = 1 \<and> isnull (building_cat r))
                 (\<lambda>r. r\<lparr>building_cat := Some ''detached''\<rparr>) df;
          df = assign_where (\<lambda>r. buildingtype r = 2 \<and> isnull (building_cat r))
                 (\<lambda>r. r\<lparr>building_cat := Some ''semidetached''\<rparr>) df;
          df = assign_where
                 (\<lambda>r. (buildingtype r = 3 \<or> buildingtype r = 4) \<and> isnull (building_cat r))
                 (\<lambda>r. r\<lparr>building_cat := Some ''terraced''\<rparr>) df;
          df = assign_where
                 (\<lambda>r. buildingtype r = 5 \<and> numberofstoreys r > 1 \<and> isnull (building_cat r))
                 (\<lambda>r. r\<lparr>building_cat := Some ''detached''\<rparr>) df;
          df = assign_where (\<lambda>r. buildingtype r = 5 \<and> isnull (building_cat r))
                 (\<lambda>r. r\<lparr>building_cat := Some ''bungalow''\<rparr>) df;
          df = assign_where (\<lambda>r. occupancycode r = 1052 \<or> occupancycode r = 1055)
                 (\<lambda>r. r\<lparr>building_cat := Some ''flat''\<rparr>) df;
          df = assign_where (\<lambda>r. occupancycode r = 1056)
                 (\<lambda>r. r\<lparr>building_cat := Some ''terraced''\<rparr>) df;
          df = merge_left
                 (\<lambda>r m. building_cat r = Some (mr_building_cat m)
                        \<and> yearbuilt_cat r = Some (mr_yearbuilt_cat m))
                 (\<lambda>r m. r\<lparr>mcm_code := map_option mr_mcm_code m\<rparr>) df mcm_res_tab;
          df = assign_where (\<lambda>r. occupancycode r = 1053)
                 (\<lambda>r. r\<lparr>mcm_code := Some 51, building_cat := Some ''nonres''\<rparr>) df;
          df = assign_where (\<lambda>r. occupancycode r = 1054)
                 (\<lambda>r. r\<lparr>mcm_code := Some 6, building_cat := Some ''nonres''\<rparr>) df;
          df = assign_where
                 (\<lambda>r. (occupancycode r = 1050 \<or> occupancycode r = 1051 \<or> occupancycode r = 1000)
                      \<and> isnull (building_cat r))
                 (\<lambda>r. r\<lparr>mcm_code := Some 1, building_cat := Some ''general_res''\<rparr>) df
      in df)"

definition get_mcm_code_non_residential :: "mcm_nonres_entry list \<Rightarrow> row list \<Rightarrow> row list" where
  "get_mcm_code_non_residential mcm_nonres_tab loc_df_nonres =
     (let df = merge_left (\<lambda>r m. occupancycode r = mn_occupancycode m)
                 (\<lambda>r m. r\<lparr>mcm_code := map_option mn_mcm_code m\<rparr>)
                 loc_df_nonres mcm_nonres_tab;
          df = map (\<lambda>r. r\<lparr>building_cat := Some ''nonres''\<rparr>) df
      in df)"

definition get_number_of_storeys :: "row list \<Rightarrow> row list" where
  "get_number_of_storeys loc_df =
     (let df = assign_where (\<lambda>r. building_cat r = Some ''bungalow'')
                 (\<lambda>r. r\<lparr>numberofstoreys := 0\<rparr>) loc_df;
          df = assign_where
                 (\<lambda>r. numberofstoreys r = 0
                      \<and> (building_cat r = Some ''detached'' \<or> building_cat r = Some ''semidetached''
                         \<or> building_cat r = Some ''terraced''))
                 (\<lambda>r. r\<lparr>numberofstoreys := 2\<rparr>) df;
          df = assign_where (\<lambda>r. numberofstoreys r = 0 \<and> building_cat r = Some ''flat'')
                 (\<lambda>r. r\<lparr>numberofstoreys := 1\<rparr>) df;
          df = assign_where (\<lambda>r. building_cat r = Some ''general_res'')
                 (\<lambda>r. r\<lparr>numberofstoreys := 0\<rparr>) df;
          df = assign_where (\<lambda>r. numberofstoreys r = 0 \<and> building_cat r = Some ''nonres'')
                 (\<lambda>r. r\<lparr>numberofstoreys := 1\<rparr>) df;
          df = assign_where (\<lambda>r. numberofstoreys r > 6) (\<lambda>r. r\<lparr>numberofstoreys := 6\<rparr>) df
      in df)"

text \<open>\<^verbatim>\<open>list(map(int, floorsoccupied.split(";")))\<close>: the first failure raises.\<close>

fun map_int :: "string list \<Rightarrow> error + int list" where
  "map_int [] = Inr []"
| "map_int (s # ss) =
     (case py_int s of
        Inl e \<Rightarrow> Inl e
      | Inr n \<Rightarrow> (case map_int ss of Inl e \<Rightarrow> Inl e | Inr ns \<Rightarrow> Inr (n # ns)))"

definition get_floors_occupied :: "cell \<Rightarrow> error + int" where
  "get_floors_occupied floorsoccupied_cell =
     (case floorsoccupied_cell of
        IntCell n \<Rightarrow> Inl AttributeError
      | StrCell s \<Rightarrow>
          (case map_int (split_on CHR '';'' s) of
             Inl e \<Rightarrow> Inl e
           | Inr [] \<Rightarrow> Inl ValueError
           | Inr (n # ns) \<Rightarrow>
               (let floors = fold min ns n;
                    floors = max floors 0;
                    floors = min 3 floors
                in Inr floors)))"

text \<open>\<^verbatim>\<open>loc_df.apply(lambda x: self.get_floors_occupied(x["floorsoccupied"]), axis=1)\<close>.\<close>

fun apply_floors_occupied :: "row list \<Rightarrow> error + row list" where
  "apply_floors_occupied [] = Inr []"
| "apply_floors_occupied (r # rs) =
     (case get_floors_occupied (floorsoccupied r) of
        Inl e \<Rightarrow> Inl e
      | Inr n \<Rightarrow>
          (case apply_floors_occupied rs of
             Inl e \<Rightarrow> Inl e
           | Inr rs' \<Rightarrow> Inr (r\<lparr>floorsoccupied := IntCell n\<rparr> # rs')))"

subsection \<open>Binning\<close>

text \<open>
  The eight statements that set \<^verbatim>\<open>ffh_cat\<close>, in their order: the condition on
  \<^verbatim>\<open>firstfloorheight\<close> and the value assigned.
\<close>

definition ffh_buckets :: "((real \<Rightarrow> bool) \<times> real) list" where
  "ffh_buckets =
     [(\<lambda>h. h \<ge> 0 \<and> h < 0.05, 0),
      (\<lambda>h. h \<ge> 0.05 \<and> h < 0.15, 0.05),
      (\<lambda>h. h \<ge> 0.15 \<and> h < 0.25, 0.15),
      (\<lambda>h. h \<ge> 0.25 \<and> h < 0.35, 0.25),
      (\<lambda>h. h \<ge> 0.35 \<and> h < 0.65, 0.35),
      (\<lambda>h. h \<ge> 0.65 \<and> h < 1.35, 0.65),
      (\<lambda>h. h \<ge> 1.35 \<and> h < 2.65, 1.35),
      (\<lambda>h. h \<ge> 2.65, 2.65)]"

definition ffh_bucket_applies :: "row \<Rightarrow> (real \<Rightarrow> bool) \<times> real \<Rightarrow> bool" where
  "ffh_bucket_applies r b = fst b (firstfloorheight r)"

definition get_first_floor_height :: "row list \<Rightarrow> row list" where
  "get_first_floor_height loc_df =
     (let df = assign_where (\<lambda>r. firstfloorheightunit r = 1 \<and> firstfloorheight r \<noteq> - 999)
                 (\<lambda>r. r\<lparr>firstfloorheight := firstfloorheight r * 0.3048\<rparr>) loc_df;
          df = assign_where (\<lambda>r. mobilehome_cat r = Some True \<and> firstfloorheight r = - 999)
                 (\<lambda>r. r\<lparr>firstfloorheight := 0.6\<rparr>) df;
          df = assign_where (\<lambda>r. building_cat r = Some ''nonres'' \<and> firstfloorheight r = - 999)
                 (\<lambda>r. r\<lparr>firstfloorheight := 0.6\<rparr>) df;
          df = assign_where (\<lambda>r. firstfloorheight r = - 999)
                 (\<lambda>r. r\<lparr>firstfloorheight := 0.3\<rparr>) df;
          df = foldl (\<lambda>df b. assign_where (\<lambda>r. ffh_bucket_applies r b)
                               (\<lambda>r. r\<lparr>ffh_cat := Some (snd b)\<rparr>) df) df ffh_buckets
      in df)"

definition residential_cat :: "string option \<Rightarrow> bool" where
  "residential_cat c =
     (c = Some ''detached'' \<or> c = Some ''semidetached'' \<or> c = Some ''terraced''
      \<or> c = Some ''flat'' \<or> c = Some ''bungalow'' \<or> c = Some ''general_res'')"

definition nonres_cat :: "string option \<Rightarrow> bool" where
  "nonres_cat c = (c = Some ''nonres'')"

text \<open>
  The fourteen statements that set \<^verbatim>\<open>bipoi_cat\<close>, in their order: the condition on
  \<^verbatim>\<open>bipoi\<close>, the condition on \<^verbatim>\<open>building_cat\<close> and the value assigned.
\<close>

definition bipoi_buckets :: "((real \<Rightarrow> bool) \<times> (string option \<Rightarrow> bool) \<times> int) list" where
  "bipoi_buckets =
     [(\<lambda>b. b > 0 \<and> b \<le> 183, residential_cat, 1),
      (\<lambda>b. b > 183, residential_cat, 183),
      (\<lambda>b. b > 0 \<and> b < 137, nonres_cat, 0),
      (\<lambda>b. b \<ge> 137 \<and> b < 228, nonres_cat, 137),
      (\<lambda>b. b \<ge> 228 \<and> b < 319, nonres_cat, 228),
      (\<lambda>b. b \<ge> 319 \<and> b < 411, nonres_cat, 319),
      (\<lambda>b. b \<ge> 411 \<and> b < 502, nonres_cat, 411),
      (\<lambda>b. b \<ge> 502 \<and> b < 593, nonres_cat, 502),
      (\<lambda>b. b \<ge> 593 \<and> b < 684, nonres_cat, 593),
      (\<lambda>b. b \<ge> 684 \<and> b < 776, nonres_cat, 684),
      (\<lambda>b. b \<ge> 776 \<and> b < 867, nonres_cat, 776),
      (\<lambda>b. b \<ge> 867 \<and> b < 958, nonres_cat, 867),
      (\<lambda>b. b \<ge> 958 \<and> b < 1049, nonres_cat, 958),
      (\<lambda>b. b \<ge> 1049, nonres_cat, 1049)]"

definition bipoi_bucket_applies ::
  "row \<Rightarrow> (real \<Rightarrow> bool) \<times> (string option \<Rightarrow> bool) \<times> int \<Rightarrow> bool" where
  "bipoi_bucket_applies r b = (fst b (bipoi r) \<and> fst (snd b) (building_cat r))"

definition get_bi_poi :: "row list \<Rightarrow> row list" where
  "get_bi_poi loc_df =
     foldl (\<lambda>df b. assign_where (\<lambda>r. bipoi_bucket_applies r b)
                      (\<lambda>r. r\<lparr>bipoi_cat := Some (snd (snd b))\<rparr>) df) loc_df bipoi_buckets"

subsection \<open>Geocoding and perils\<close>

text \<open>
  \<^verbatim>\<open>get_latlon\<close>. The two conjuncts \<^verbatim>\<open>(loc_df["pc_lat"].isnull().all() is False)\<close> are
  Python booleans computed once for the frame. \<^verbatim>\<open>temp_ll\<close> is the selection with its
  columns \<^verbatim>\<open>pc_lat\<close> and \<^verbatim>\<open>pc_lon\<close> filtered down to the items \<^verbatim>\<open>latitude\<close> and
  \<^verbatim>\<open>longitude\<close>, so it has no column, and the assignment of it to the columns
  \<^verbatim>\<open>latitude\<close> and \<^verbatim>\<open>longitude\<close> writes NaN where the mask holds.
\<close>

definition get_latlon :: "postcode_entry list \<Rightarrow> row list \<Rightarrow> row list" where
  "get_latlon postcode_tab loc_df =
     (let df = map (\<lambda>r. r\<lparr>postalcode := normalise_postalcode (postalcode r)\<rparr>) loc_df;
          df = merge_left (\<lambda>r p. postalcode r = pc_postalcode p)
                 (\<lambda>r p. r\<lparr>pc_lat := map_option pce_lat p, pc_lon := map_option pce_lon p\<rparr>)
                 df postcode_tab;
          pc_lat_found = is_False (series_all (map (\<lambda>r. isnull (pc_lat r)) df));
          pc_lon_found = is_False (series_all (map (\<lambda>r. isnull (pc_lon r)) df));
          df = assign_where
                 (\<lambda>r. latitude r = Some 0 \<and> longitude r = Some 0 \<and> pc_lat_found \<and> pc_lon_found)
                 (\<lambda>r. r\<lparr>latitude := None, longitude := None\<rparr>) df
      in df)"

definition get_peril :: "row list \<Rightarrow> row list" where
  "get_peril loc_df =
     (let df = assign_where (\<lambda>r. locperilscovered r = PERIL_GROUP_all)
                 (\<lambda>r. r\<lparr>locperilscovered := ALL_PERILS\<rparr>) loc_df;
          df = assign_where (\<lambda>r. locperilscovered r = PERIL_GROUP_flood_wo_storm_surge)
                 (\<lambda>r. r\<lparr>locperilscovered := FLUVIAL_ID @ '';'' @ PLUVIAL_ID\<rparr>) df;
          df = assign_where (\<lambda>r. locperilscovered r = PERIL_GROUP_windstorm_w_storm_surge)
                 (\<lambda>r. r\<lparr>locperilscovered := COASTAL_ID\<rparr>) df
      in df)"

definition get_latlon_ids :: "row list \<Rightarrow> row list" where
  "get_latlon_ids keys_df =
     (let df = map (\<lambda>r. r\<lparr>lat_id := map_option (\<lambda>x. \<lfloor>x * 3600\<rfloor>) (latitude r)\<rparr>) keys_df;
          df = map (\<lambda>r. r\<lparr>lon_id := map_option (\<lambda>x. \<lfloor>x * 3600\<rfloor>) (longitude r)\<rparr>) df
      in df)"

subsection \<open>Keys: expansion, suppression, vulnerability\<close>

text \<open>The loop "get keys df" over \<^verbatim>\<open>self.perils\<close> and \<^verbatim>\<open>self.coverages\<close>.\<close>

definition expand_keys :: "row list \<Rightarrow> row list" where
  "expand_keys loc_df =
     concat (map (\<lambda>peril.
       concat (map (\<lambda>coverage.
         filter (\<lambda>r. str_contains (locperilscovered r) peril)
           (map (\<lambda>r. r\<lparr>coveragetype_id := Some coverage, peril_id := Some peril\<rparr>) loc_df))
         coverages)) perils)"

text \<open>"remove values that would screw up lookup".\<close>

definition remove_lookup_values :: "row list \<Rightarrow> row list" where
  "remove_lookup_values keys_df =
     (let df = assign_where
                 (\<lambda>k. coveragetype_id k \<noteq> Some COVERAGE_contents
                      \<or> (building_cat k \<noteq> Some ''flat'' \<and> building_cat k \<noteq> Some ''nonres''))
                 (\<lambda>k. k\<lparr>floorsoccupied := IntCell (- 9999)\<rparr>) keys_df;
          df = assign_where (\<lambda>k. coveragetype_id k \<noteq> Some COVERAGE_bi)
                 (\<lambda>k. k\<lparr>bipoi_cat := Some (- 9999)\<rparr>) df;
          df = assign_where
                 (\<lambda>k. coveragetype_id k = Some COVERAGE_bi
                      \<or> (building_cat k = Some ''flat''
                          \<and> coveragetype_id k = Some COVERAGE_contents))
                 (\<lambda>k. k\<lparr>numberofstoreys := 0\<rparr>) df;
          df = assign_where
                 (\<lambda>k. coveragetype_id k = Some COVERAGE_bi \<and> building_cat k = Some ''nonres'')
                 (\<lambda>k. k\<lparr>mcm_code := Some 0\<rparr>) df
      in df)"

text \<open>"sort out peril types for merge", and the two \<^verbatim>\<open>fillna(-1)\<close> before the merge.\<close>

definition sort_peril_types :: "row list \<Rightarrow> row list" where
  "sort_peril_types keys_df =
     (let df = map (\<lambda>k. k\<lparr>peril_type := peril_id k\<rparr>) keys_df;
          df = assign_where (\<lambda>k. coveragetype_id k = Some COVERAGE_bi)
                 (\<lambda>k. k\<lparr>peril_type := Some ALL_PERILS\<rparr>) df;
          df = map (\<lambda>k. k\<lparr>mcm_code := fillna (- 1) (mcm_code k)\<rparr>) df;
          df = map (\<lambda>k. k\<lparr>bipoi_cat := fillna (- 1) (bipoi_cat k)\<rparr>) df
      in df)"

text \<open>The columns the keys frame shares with the vulnerability table.\<close>

definition vulnerability_matches :: "row \<Rightarrow> vulnerability \<Rightarrow> bool" where
  "vulnerability_matches k v =
     (mcm_code k = Some (v_mcm_code v)
      \<and> coveragetype_id k = Some (v_coveragetype_id v)
      \<and> map_option PerilStr (peril_type k) = Some (v_peril_type v)
      \<and> user_vulnerability_id k = v_user_vulnerability_id v)"

text \<open>
  "assign vulnerability\_id": the left merge, then (after \<^verbatim>\<open>get_latlon_ids\<close>, which
  does not read the column) \<^verbatim>\<open>fillna(-1)\<close>.
\<close>

definition merge_vulnerability :: "vulnerability list \<Rightarrow> row list \<Rightarrow> row list" where
  "merge_vulnerability vulnerability_tab keys_df =
     merge_left vulnerability_matches
       (\<lambda>k v. k\<lparr>vulnerability_id := map_option v_vulnerability_id v\<rparr>) keys_df vulnerability_tab"

definition fill_vulnerability_id :: "row list \<Rightarrow> row list" where
  "fill_vulnerability_id keys_df =
     map (\<lambda>k. k\<lparr>vulnerability_id := fillna (- 1) (vulnerability_id k)\<rparr>) keys_df"

subsection \<open>At-risk grid and status\<close>

text \<open>"filter the self.at\_risk\_df to make the merge less expensive".\<close>

definition filter_at_risk :: "row list \<Rightarrow> at_risk_entry list \<Rightarrow> at_risk_entry list" where
  "filter_at_risk keys_df at_risk_tab =
     (let tab = filter (\<lambda>a. Some (ar_lat_id a) \<in> set (map lat_id keys_df)) at_risk_tab;
          tab = filter (\<lambda>a. Some (ar_lon_id a) \<in> set (map lon_id keys_df)) tab
      in tab)"

definition at_risk_matches :: "row \<Rightarrow> at_risk_entry \<Rightarrow> bool" where
  "at_risk_matches k a =
     (lat_id k = Some (ar_lat_id a) \<and> lon_id k = Some (ar_lon_id a)
      \<and> peril_id k = Some (ar_peril_id a))"

text \<open>
  "assign notatrisk": the inner merge of the keys (their positions kept as the column
  \<^verbatim>\<open>index\<close>) with the at-risk table, and the positions found in it.
\<close>

definition assign_notatrisk :: "at_risk_entry list \<Rightarrow> row list \<Rightarrow> row list" where
  "assign_notatrisk at_risk_tab keys_df =
     (let temp_index =
            concat (map (\<lambda>ik. map (\<lambda>a. fst ik) (filter (at_risk_matches (snd ik)) at_risk_tab))
                        (enumerate 0 keys_df))
      in map (\<lambda>ik. (snd ik)\<lparr>at_risk := Some (fst ik \<in> set temp_index)\<rparr>) (enumerate 0 keys_df))"

text \<open>"sort keys status": the five assignments of \<^verbatim>\<open>["status", "message"]\<close>.\<close>

definition sort_keys_status :: "row list \<Rightarrow> row list" where
  "sort_keys_status keys_df =
     (let df = assign_where
                 (\<lambda>k. vulnerability_id k \<noteq> Some (- 1) \<and> notna (lat_id k) \<and> notna (lon_id k)
                      \<and> at_risk k = Some True)
                 (\<lambda>k. k\<lparr>status := Some STATUS_success, message := Some []\<rparr>) keys_df;
          df = assign_where
                 (\<lambda>k. vulnerability_id k \<noteq> Some (- 1) \<and> notna (lat_id k) \<and> notna (lon_id k)
                      \<and> at_risk k = Some False)
                 (\<lambda>k. k\<lparr>status := Some STATUS_notatrisk,
                        message := Some ''area-peril and vulnerability valid, but location not exposed to this peril''\<rparr>)
                 df;
          df = assign_where
                 (\<lambda>k. vulnerability_id k = Some (- 1) \<and> notna (lat_id k) \<and> notna (lon_id k))
                 (\<lambda>k. k\<lparr>status := Some STATUS_fail_v,
                        message := Some ''area-peril valid, vulnerability invalid''\<rparr>) df;
          df = assign_where
                 (\<lambda>k. vulnerability_id k \<noteq> Some (- 1) \<and> (isnull (lat_id k) \<or> isnull (lon_id k)))
                 (\<lambda>k. k\<lparr>status := Some STATUS_fail_ap,
                        message := Some ''vulnerability valid, area-peril invalid''\<rparr>) df;
          df = assign_where
                 (\<lambda>k. vulnerability_id k = Some (- 1) \<and> (isnull (lat_id k) \<or> isnull (lon_id k)))
                 (\<lambda>k. k\<lparr>status := Some STATUS_fail,
                        message := Some ''area-peril and vulnerability invalid''\<rparr>) df
      in df)"

subsection \<open>\<^verbatim>\<open>format_keys_df\<close>\<close>

definition json_str :: "string \<Rightarrow> string" where
  "json_str s = [CHR 0x22] @ s @ [CHR 0x22]"

definition json_field :: "string \<Rightarrow> string \<Rightarrow> string" where
  "json_field name v = json_str name @ '':'' @ v"

text \<open>
  The \<^verbatim>\<open>json.dumps\<close> of the model data of one success row (strings without characters
  to escape). \<^verbatim>\<open>int(NaN)\<close> raises ValueError and an unknown coverage id KeyError;
  neither is caught by \<^verbatim>\<open>except IndexError\<close>.
\<close>

definition model_data_json :: "row \<Rightarrow> int \<Rightarrow> error + string" where
  "model_data_json row c =
     (case (lat_id row, lon_id row, vulnerability_id row) of
        (Some la, Some lo, Some v) \<Rightarrow>
          (case (coveragetype_id row, peril_id row) of
             (Some cov, Some per) \<Rightarrow>
               (case SUPPORTED_COVERAGE_TYPES_BY_ID cov of
                  None \<Rightarrow> Inl KeyError
                | Some cov_name \<Rightarrow>
                    Inr (''{'' @ json_field ''lat_id'' (show_int la)
                         @ '','' @ json_field ''lon_id'' (show_int lo)
                         @ '','' @ json_field ''catchment_id'' (show_int c)
                         @ '','' @ json_field ''vulnerability_id'' (show_int v)
                         @ '','' @ json_field ''user_vulnerability_id''
                                     (show_int (user_vulnerability_id row))
                         @ '','' @ json_field ''peril_id'' (json_str per)
                         @ '','' @ json_field ''coverage'' (json_str cov_name)
                         @ '','' @ json_field ''coverage_type_id'' (show_int cov)
                         @ '','' @ json_field ''loc_number'' (show_int (locnumber row))
                         @ '','' @ json_field ''port_number'' (show_int (portnumber row))
                         @ '','' @ json_field ''acc_number'' (show_int (accnumber row))
                         @ ''}''))
           | _ \<Rightarrow> Inl KeyError)
      | _ \<Rightarrow> Inl ValueError)"

text \<open>
  The pixel of the raster at the row's longitude and latitude; \<open>None\<close> is the
  IndexError of the read (a success row has both coordinates).
\<close>

definition read_catchment :: "(real \<Rightarrow> real \<Rightarrow> int option) \<Rightarrow> row \<Rightarrow> int option" where
  "read_catchment tif row =
     (case (longitude row, latitude row) of (Some x, Some y) \<Rightarrow> tif x y | _ \<Rightarrow> None)"

text \<open>
  One pass of the loop over \<^verbatim>\<open>success_keys.itertuples()\<close>: \<open>row\<close> is the row as it was
  when \<^verbatim>\<open>success_keys\<close> was taken, \<open>i\<close> its index, and the writes go to the frame.
\<close>

definition format_row ::
  "(real \<Rightarrow> real \<Rightarrow> int option) \<Rightarrow> nat \<times> row \<Rightarrow> row list \<Rightarrow> error + row list" where
  "format_row tif ir keys_df =
     (let i = fst ir; row = snd ir;
          failed = keys_df[i := (keys_df ! i)\<lparr>status := Some OASIS_KEYS_FL,
                      message := Some ''could not find catchment for lat/lon''\<rparr>]
      in case read_catchment tif row of
           None \<Rightarrow> Inr failed
         | Some c \<Rightarrow>
             if c < 0 then Inr failed
             else (case model_data_json row c of
                     Inl e \<Rightarrow> Inl e
                   | Inr js \<Rightarrow>
                       Inr (keys_df[i := (keys_df ! i)\<lparr>catchment_id := Some c,
                                                      model_data := Some js\<rparr>])))"

fun format_rows ::
  "(real \<Rightarrow> real \<Rightarrow> int option) \<Rightarrow> (nat \<times> row) list \<Rightarrow> row list \<Rightarrow> error + row list" where
  "format_rows tif [] keys_df = Inr keys_df"
| "format_rows tif (ir # irs) keys_df =
     (case format_row tif ir keys_df of
        Inl e \<Rightarrow> Inl e
      | Inr keys_df' \<Rightarrow> format_rows tif irs keys_df')"

definition format_keys_df :: "(real \<Rightarrow> real \<Rightarrow> int option) \<Rightarrow> row list \<Rightarrow> error + row list" where
  "format_keys_df tif keys_df =
     (let df = map (\<lambda>k. k\<lparr>catchment_id := Some (- 1)\<rparr>) keys_df;
          df = map (\<lambda>k. k\<lparr>area_peril_id := Some (- 1)\<rparr>) df;
          df = map (\<lambda>k. k\<lparr>model_data := Some []\<rparr>) df;
          success_keys = filter (\<lambda>ir. status (snd ir) = Some STATUS_success) (enumerate 0 df)
      in format_rows tif success_keys df)"

subsection \<open>\<^verbatim>\<open>process_locations\<close>\<close>

definition select_columns :: "row \<Rightarrow> result_key" where
  "select_columns k =
     \<lparr>rk_loc_id = loc_id k, rk_peril_id = peril_id k, rk_coverage_type = coveragetype_id k,
      rk_vulnerability_id = vulnerability_id k, rk_status = status k,
      rk_message = message k, rk_model_data = model_data k,
      rk_catchment_id = catchment_id k, rk_lat_id = lat_id k, rk_lon_id = lon_id k,
      rk_area_peril_id = area_peril_id k\<rparr>"

text \<open>
  From the field defaults to the residential and nonresidential parts put together
  again. Each part is classified only when it is not empty; when both are empty no
  statement has made the column \<^verbatim>\<open>building_cat\<close>, and \<^verbatim>\<open>get_number_of_storeys\<close>
  raises KeyError.
\<close>

definition classify_locations :: "lookup \<Rightarrow> raw_df \<Rightarrow> error + row list" where
  "classify_locations self df =
     (let loc_df = normalise_fields df;
          loc_df = get_mobile_home loc_df;
          loc_df_res = filter (\<lambda>r. occupancycode r < 1100) loc_df;
          loc_df_res = (if loc_df_res \<noteq> []
                        then get_mcm_code_residential (yearbuilt_df self) (mcm_res_df self) loc_df_res
                        else loc_df_res);
          loc_df_nonres = filter (\<lambda>r. occupancycode r \<ge> 1100) loc_df;
          loc_df_nonres = (if loc_df_nonres \<noteq> []
                           then get_mcm_code_non_residential (mcm_nonres_df self) loc_df_nonres
                           else loc_df_nonres);
          loc_df = loc_df_res @ loc_df_nonres
      in if loc_df = [] then Inl KeyError else Inr (get_number_of_storeys loc_df))"

text \<open>The keys frame up to \<^verbatim>\<open>fillna(-1)\<close> of \<^verbatim>\<open>vulnerability_id\<close>.\<close>

definition candidate_keys :: "lookup \<Rightarrow> raw_df \<Rightarrow> error + row list" where
  "candidate_keys self df =
     (case classify_locations self df of
        Inl e \<Rightarrow> Inl e
      | Inr loc_df \<Rightarrow>
          (case apply_floors_occupied loc_df of
             Inl e \<Rightarrow> Inl e
           | Inr loc_df \<Rightarrow>
               (let loc_df = get_first_floor_height loc_df;
                    loc_df = get_bi_poi loc_df;
                    loc_df = get_latlon (postcode_df self) loc_df;
                    loc_df = get_peril loc_df;
                    keys_df = expand_keys loc_df;
                    keys_df = remove_lookup_values keys_df;
                    keys_df = sort_peril_types keys_df;
                    keys_df = merge_vulnerability (vulnerability_df self) keys_df;
                    keys_df = get_latlon_ids keys_df;
                    keys_df = fill_vulnerability_id keys_df
                in Inr keys_df)))"

text \<open>
  \<^verbatim>\<open>process_locations\<close>: the result (the keys frame, or the exception raised) and the
  lookup object as the call leaves it.
\<close>

definition process_locations :: "lookup \<Rightarrow> raw_df \<Rightarrow> (error + result_key list) \<times> lookup" where
  "process_locations self df =
     (case candidate_keys self df of
        Inl e \<Rightarrow> (Inl e, self)
      | Inr keys_df \<Rightarrow>
          (let self = self\<lparr>at_risk_df := filter_at_risk keys_df (at_risk_df self)\<rparr>;
               keys_df = assign_notatrisk (at_risk_df self) keys_df;
               keys_df = sort_keys_status keys_df
           in case format_keys_df (catchments_tif self) keys_df of
                Inl e \<Rightarrow> (Inl e, self)
              | Inr keys_df \<Rightarrow> (Inr (map select_columns keys_df), self)))"

subsection \<open>Example data\<close>

text \<open>A candidate key of a detached house, as the keys frame holds it before the status is set.\<close>

definition example_key :: row where
  "example_key =
     \<lparr>loc_id = 1, accnumber = 10, portnumber = 20, locnumber = 30, user_vulnerability_id = 0,
      locperilscovered = ''ORF;OSF;WSS'', buildingtype = 1, occupancycode = 1050,
      constructioncode = 5000, numberofstoreys = 2, floorsoccupied = IntCell 1,
      firstfloorheight = 0.3048, firstfloorheightunit = 1, yearbuilt = 1990, bipoi = 200,
      latitude = Some 51.5, longitude = Some (- 0.1), postalcode = ''AB12CD'',
      mobilehome_cat = Some False, yearbuilt_cat = Some ''modern'',
      building_cat = Some ''detached'', mcm_code = Some 7, ffh_cat = Some 0.25,
      bipoi_cat = Some 183, pc_lat = None, pc_lon = None,
      coveragetype_id = Some 1, peril_id = Some ''ORF'', peril_type = Some ''ORF'',
      vulnerability_id = Some 101, lat_id = Some 185400, lon_id = Some (- 360),
      at_risk = Some True, status = None, message = None, catchment_id = None,
      area_peril_id = None, model_data = None\<rparr>"

text \<open>A row of vulnerability\_dict.csv for all perils (the code -9999), as read.\<close>

definition example_group_row :: vulnerability where
  "example_group_row = \<lparr>v_mcm_code = 7, v_coveragetype_id = 1, v_peril_type = PerilCode (- 9999),
     v_user_vulnerability_id = 0, v_vulnerability_id = 104\<rparr>"

subsection \<open>Row-wise readings\<close>

text \<open>One \<^verbatim>\<open>bipoi_cat\<close> statement, and one \<^verbatim>\<open>ffh_cat\<close> statement, on one row.\<close>

definition bipoi_step :: "row \<Rightarrow> (real \<Rightarrow> bool) \<times> (string option \<Rightarrow> bool) \<times> int \<Rightarrow> row" where
  "bipoi_step r b = (if bipoi_bucket_applies r b then r\<lparr>bipoi_cat := Some (snd (snd b))\<rparr> else r)"

definition ffh_step :: "row \<Rightarrow> (real \<Rightarrow> bool) \<times> real \<Rightarrow> row" where
  "ffh_step r b = (if ffh_bucket_applies r b then r\<lparr>ffh_cat := Some (snd b)\<rparr> else r)"

text \<open>One pass of the loop "get keys df": the keys of one peril and one coverage.\<close>

definition key_block :: "string \<Rightarrow> int \<Rightarrow> row list \<Rightarrow> row list" where
  "key_block p c df =
     map (\<lambda>r. r\<lparr>coveragetype_id := Some c, peril_id := Some p\<rparr>)
       (filter (\<lambda>r. str_contains (locperilscovered r) p) df)"

section \<open>Properties\<close>

subsection \<open>Frames\<close>

lemma assign_where_nth:
  "i < length df \<Longrightarrow> assign_where sel upd df ! i = (if sel (df ! i) then upd (df ! i) else df ! i)"
  by (simp add: assign_where_def)

lemma length_assign_where [simp]: "length (assign_where sel upd df) = length df"
  by (simp add: assign_where_def)

lemma foldl_assign_where:
  "foldl (\<lambda>df b. assign_where (P b) (U b) df) df bs
     = map (\<lambda>r. foldl (\<lambda>r b. if P b r then U b r else r) r bs) df"
  by (induction bs arbitrary: df) (simp_all add: assign_where_def comp_def)

lemmas id_defs = FLUVIAL_ID_def PLUVIAL_ID_def COASTAL_ID_def ALL_PERILS_def
  PERIL_GROUP_all_def PERIL_GROUP_flood_wo_storm_surge_def PERIL_GROUP_windstorm_w_storm_surge_def
  COVERAGE_buildings_def COVERAGE_contents_def COVERAGE_bi_def

subsection \<open>The status table\<close>

lemma sort_keys_status_map:
  "sort_keys_status keys_df = map (\<lambda>k. hd (sort_keys_status [k])) keys_df"
  by (simp add: sort_keys_status_def assign_where_def Let_def)

lemmas status_defs = sort_keys_status_def assign_where_def Let_def notna_def isnull_def
  STATUS_success_def STATUS_notatrisk_def STATUS_fail_v_def STATUS_fail_ap_def STATUS_fail_def

lemma status_success:
  "vulnerability_id k \<noteq> Some (- 1) \<Longrightarrow> lat_id k \<noteq> None \<Longrightarrow> lon_id k \<noteq> None \<Longrightarrow>
   at_risk k = Some True \<Longrightarrow>
   status (hd (sort_keys_status [k])) = Some ''success''
   \<and> message (hd (sort_keys_status [k])) = Some ''''"
  by (simp add: status_defs)

lemma status_notatrisk:
  "vulnerability_id k \<noteq> Some (- 1) \<Longrightarrow> lat_id k \<noteq> None \<Longrightarrow> lon_id k \<noteq> None \<Longrightarrow>
   at_risk k = Some False \<Longrightarrow>
   status (hd (sort_keys_status [k])) = Some ''notatrisk''
   \<and> message (hd (sort_keys_status [k])) =
       Some ''area-peril and vulnerability valid, but location not exposed to this peril''"
  by (simp add: status_defs)

lemma status_fail_v:
  "vulnerability_id k = Some (- 1) \<Longrightarrow> lat_id k \<noteq> None \<Longrightarrow> lon_id k \<noteq> None \<Longrightarrow>
   status (hd (sort_keys_status [k])) = Some ''fail_v''
   \<and> message (hd (sort_keys_status [k])) = Some ''area-peril valid, vulnerability invalid''"
  by (simp add: status_defs)

lemma status_fail_ap:
  "vulnerability_id k \<noteq> Some (- 1) \<Longrightarrow> lat_id k = None \<or> lon_id k = None \<Longrightarrow>
   status (hd (sort_keys_status [k])) = Some ''fail_ap''
   \<and> message (hd (sort_keys_status [k])) = Some ''vulnerability valid, area-peril invalid''"
  by (auto simp add: status_defs)

lemma status_fail:
  "vulnerability_id k = Some (- 1) \<Longrightarrow> lat_id k = None \<or> lon_id k = None \<Longrightarrow>
   status (hd (sort_keys_status [k])) = Some ''fail''
   \<and> message (hd (sort_keys_status [k])) = Some ''area-peril and vulnerability invalid''"
  by (auto simp add: status_defs)

text \<open>
  Claim C1. The five assignments of "sort keys status" give every row of the keys frame
  the status and the message of the five-way table over (vulnerability valid,
  coordinates defined, at\_risk): the row at index \<open>i\<close> before (\<open>k\<close>) and after
  (\<open>k'\<close>) the assignments. The five conditions exclude each other and cover every row
  whose \<^verbatim>\<open>at_risk\<close> is a boolean, so each such row has exactly one of the five codes.
\<close>

theorem status_classification:
  assumes "i < length keys_df" and "k = keys_df ! i" and "k' = sort_keys_status keys_df ! i"
  shows "(vulnerability_id k \<noteq> Some (- 1) \<and> lat_id k \<noteq> None \<and> lon_id k \<noteq> None
            \<and> at_risk k = Some True \<longrightarrow>
           status k' = Some ''success'' \<and> message k' = Some '''')
       \<and> (vulnerability_id k \<noteq> Some (- 1) \<and> lat_id k \<noteq> None \<and> lon_id k \<noteq> None
            \<and> at_risk k = Some False \<longrightarrow>
           status k' = Some ''notatrisk'' \<and> message k' =
             Some ''area-peril and vulnerability valid, but location not exposed to this peril'')
       \<and> (vulnerability_id k = Some (- 1) \<and> lat_id k \<noteq> None \<and> lon_id k \<noteq> None \<longrightarrow>
           status k' = Some ''fail_v''
           \<and> message k' = Some ''area-peril valid, vulnerability invalid'')
       \<and> (vulnerability_id k \<noteq> Some (- 1) \<and> (lat_id k = None \<or> lon_id k = None) \<longrightarrow>
           status k' = Some ''fail_ap''
           \<and> message k' = Some ''vulnerability valid, area-peril invalid'')
       \<and> (vulnerability_id k = Some (- 1) \<and> (lat_id k = None \<or> lon_id k = None) \<longrightarrow>
           status k' = Some ''fail''
           \<and> message k' = Some ''area-peril and vulnerability invalid'')
       \<and> (at_risk k \<noteq> None \<longrightarrow>
           status k' \<in> {Some ''success'', Some ''notatrisk'', Some ''fail_v'',
                        Some ''fail_ap'', Some ''fail''})"
proof -
  have k': "k' = hd (sort_keys_status [k])"
    using assms by (subst (asm) sort_keys_status_map) simp
  have six: "at_risk k \<noteq> None \<Longrightarrow>
      status k' \<in> {Some ''success'', Some ''notatrisk'', Some ''fail_v'',
                   Some ''fail_ap'', Some ''fail''}"
  proof -
    assume ar: "at_risk k \<noteq> None"
    then obtain b where b: "at_risk k = Some b" by auto
    show ?thesis
    proof (cases "vulnerability_id k = Some (- 1)")
      case True
      then show ?thesis
        using status_fail_v [of k] status_fail [of k] k'
        by (cases "lat_id k = None \<or> lon_id k = None") auto
    next
      case False
      then show ?thesis
        using status_success [of k] status_notatrisk [of k] status_fail_ap [of k] k' b
        by (cases "lat_id k = None \<or> lon_id k = None"; cases b) auto
    qed
  qed
  show ?thesis
    using status_success [of k] status_notatrisk [of k] status_fail_v [of k]
      status_fail_ap [of k] status_fail [of k] six
    unfolding k' by blast
qed

theorem status_classification_witness:
  "status (sort_keys_status [example_key] ! 0) = Some ''success''
   \<and> message (sort_keys_status [example_key] ! 0) = Some ''''
   \<and> status (sort_keys_status [example_key\<lparr>at_risk := Some False\<rparr>] ! 0) = Some ''notatrisk''
   \<and> status (sort_keys_status [example_key\<lparr>vulnerability_id := Some (- 1)\<rparr>] ! 0)
       = Some ''fail_v''
   \<and> status (sort_keys_status [example_key\<lparr>lat_id := None\<rparr>] ! 0) = Some ''fail_ap''
   \<and> status (sort_keys_status [example_key\<lparr>vulnerability_id := Some (- 1), lon_id := None\<rparr>] ! 0)
       = Some ''fail''"
  using status_classification [of 0 "[example_key]" example_key, OF _ _ refl]
    status_classification [of 0 "[example_key\<lparr>at_risk := Some False\<rparr>]"
      "example_key\<lparr>at_risk := Some False\<rparr>", OF _ _ refl]
    status_classification [of 0 "[example_key\<lparr>vulnerability_id := Some (- 1)\<rparr>]"
      "example_key\<lparr>vulnerability_id := Some (- 1)\<rparr>", OF _ _ refl]
    status_classification [of 0 "[example_key\<lparr>lat_id := None\<rparr>]"
      "example_key\<lparr>lat_id := None\<rparr>", OF _ _ refl]
    status_classification [of 0 "[example_key\<lparr>vulnerability_id := Some (- 1), lon_id := None\<rparr>]"
      "example_key\<lparr>vulnerability_id := Some (- 1), lon_id := None\<rparr>", OF _ _ refl]
  by (simp add: example_key_def)

subsection \<open>Binning\<close>

lemma get_bi_poi_map: "get_bi_poi df = map (\<lambda>r. foldl bipoi_step r bipoi_buckets) df"
  unfolding get_bi_poi_def bipoi_step_def [abs_def] by (rule foldl_assign_where)

lemma bipoi_step_applies [simp]: "bipoi_bucket_applies (bipoi_step r b) c = bipoi_bucket_applies r c"
  by (simp add: bipoi_step_def bipoi_bucket_applies_def)

lemma bipoi_step_cat:
  "bipoi_cat (bipoi_step r b) = (if bipoi_bucket_applies r b then Some (snd (snd b)) else bipoi_cat r)"
  by (simp add: bipoi_step_def)

lemma foldl_bipoi_applies [simp]:
  "bipoi_bucket_applies (foldl bipoi_step r bs) c = bipoi_bucket_applies r c"
  by (induction bs arbitrary: r) simp_all

lemma foldl_bipoi_cat:
  "bipoi_cat (foldl bipoi_step r bs)
     = (case filter (bipoi_bucket_applies r) bs of [] \<Rightarrow> bipoi_cat r
        | f # fs \<Rightarrow> Some (snd (snd (last (f # fs)))))"
proof (induction bs rule: rev_induct)
  case Nil
  show ?case by simp
next
  case (snoc b bs)
  show ?case
    using snoc by (simp add: bipoi_step_cat split: list.splits)
qed

lemma residential_one_bucket:
  assumes "0 < bipoi r" "residential_cat (building_cat r)"
  shows "\<exists>b. filter (bipoi_bucket_applies r) bipoi_buckets = [b]"
proof -
  have n: "\<not> nonres_cat (building_cat r)"
    using assms(2) by (auto simp: residential_cat_def nonres_cat_def)
  show ?thesis
    using assms n by (cases "bipoi r \<le> 183") (simp_all add: bipoi_buckets_def bipoi_bucket_applies_def)
qed

lemma nonres_one_bucket:
  assumes "0 < bipoi r" "nonres_cat (building_cat r)"
  shows "\<exists>b. filter (bipoi_bucket_applies r) bipoi_buckets = [b]"
proof -
  have n: "\<not> residential_cat (building_cat r)"
    using assms(2) by (auto simp: residential_cat_def nonres_cat_def)
  consider "bipoi r < 137" | "137 \<le> bipoi r \<and> bipoi r < 228" | "228 \<le> bipoi r \<and> bipoi r < 319"
    | "319 \<le> bipoi r \<and> bipoi r < 411" | "411 \<le> bipoi r \<and> bipoi r < 502"
    | "502 \<le> bipoi r \<and> bipoi r < 593" | "593 \<le> bipoi r \<and> bipoi r < 684"
    | "684 \<le> bipoi r \<and> bipoi r < 776" | "776 \<le> bipoi r \<and> bipoi r < 867"
    | "867 \<le> bipoi r \<and> bipoi r < 958" | "958 \<le> bipoi r \<and> bipoi r < 1049" | "1049 \<le> bipoi r"
    by linarith
  then show ?thesis
    using assms n by cases (simp_all add: bipoi_buckets_def bipoi_bucket_applies_def)
qed


lemma ffh_step_applies [simp]: "ffh_bucket_applies (ffh_step r b) c = ffh_bucket_applies r c"
  by (simp add: ffh_step_def ffh_bucket_applies_def)

lemma ffh_step_height [simp]: "firstfloorheight (ffh_step r b) = firstfloorheight r"
  by (simp add: ffh_step_def)

lemma ffh_step_cat:
  "ffh_cat (ffh_step r b) = (if ffh_bucket_applies r b then Some (snd b) else ffh_cat r)"
  by (simp add: ffh_step_def)

lemma foldl_ffh_applies [simp]:
  "ffh_bucket_applies (foldl ffh_step r bs) c = ffh_bucket_applies r c"
  by (induction bs arbitrary: r) simp_all

lemma foldl_ffh_applies_fun [simp]:
  "ffh_bucket_applies (foldl ffh_step r bs) = ffh_bucket_applies r"
  by (rule ext) simp

lemma foldl_ffh_height [simp]:
  "firstfloorheight (foldl ffh_step r bs) = firstfloorheight r"
  by (induction bs arbitrary: r) simp_all

lemma foldl_ffh_cat:
  "ffh_cat (foldl ffh_step r bs)
     = (case filter (ffh_bucket_applies r) bs of [] \<Rightarrow> ffh_cat r
        | f # fs \<Rightarrow> Some (snd (last (f # fs))))"
proof (induction bs rule: rev_induct)
  case Nil
  show ?case by simp
next
  case (snoc b bs)
  show ?case
    using snoc by (simp add: ffh_step_cat split: list.splits)
qed

lemma singleton_of_length: "length xs = Suc 0 \<Longrightarrow> \<exists>b. xs = [b]"
  by (cases xs) auto

lemma ffh_one_bucket:
  assumes "0 \<le> firstfloorheight r"
  shows "\<exists>b. filter (ffh_bucket_applies r) ffh_buckets = [b]"
proof -
  let ?h = "firstfloorheight r"
  consider "?h < 0.05" | "0.05 \<le> ?h \<and> ?h < 0.15" | "0.15 \<le> ?h \<and> ?h < 0.25"
    | "0.25 \<le> ?h \<and> ?h < 0.35" | "0.35 \<le> ?h \<and> ?h < 0.65" | "0.65 \<le> ?h \<and> ?h < 1.35"
    | "1.35 \<le> ?h \<and> ?h < 2.65" | "2.65 \<le> ?h"
    by linarith
  then have "length (filter (ffh_bucket_applies r) ffh_buckets) = Suc 0"
    using assms by cases (simp_all add: ffh_buckets_def ffh_bucket_applies_def)
  then show ?thesis
    by (rule singleton_of_length)
qed

lemma get_first_floor_height_map:
  "\<exists>g. (\<forall>df. get_first_floor_height df = map (\<lambda>r. foldl ffh_step (g r) ffh_buckets) df)
       \<and> (\<forall>r. 0 \<le> firstfloorheight r \<longrightarrow> 0 \<le> firstfloorheight (g r))"
proof -
  define g1 :: "row \<Rightarrow> row" where "g1 = (\<lambda>r. if firstfloorheightunit r = 1 \<and> firstfloorheight r \<noteq> - 999
                      then r\<lparr>firstfloorheight := firstfloorheight r * 0.3048\<rparr> else r)"
  define g2 :: "row \<Rightarrow> row" where "g2 = (\<lambda>r. if mobilehome_cat r = Some True \<and> firstfloorheight r = - 999
                      then r\<lparr>firstfloorheight := 0.6\<rparr> else r)"
  define g3 :: "row \<Rightarrow> row" where "g3 = (\<lambda>r. if building_cat r = Some ''nonres'' \<and> firstfloorheight r = - 999
                      then r\<lparr>firstfloorheight := 0.6\<rparr> else r)"
  define g4 :: "row \<Rightarrow> row" where "g4 = (\<lambda>r. if firstfloorheight r = - 999
                      then r\<lparr>firstfloorheight := 0.3\<rparr> else r)"
  have eq: "get_first_floor_height df = map (\<lambda>r. foldl ffh_step (g4 (g3 (g2 (g1 r)))) ffh_buckets) df" for df
    apply (simp only: get_first_floor_height_def Let_def foldl_assign_where)
    apply (simp only: assign_where_def map_map comp_def g1_def g2_def g3_def g4_def
        ffh_step_def [abs_def])
    done
  have pos: "0 \<le> firstfloorheight (g4 (g3 (g2 (g1 r))))" if "0 \<le> firstfloorheight r" for r
    using that by (simp add: g1_def g2_def g3_def g4_def)
  show ?thesis
    by (rule exI [of _ "\<lambda>r. g4 (g3 (g2 (g1 r)))"]) (simp add: eq pos)
qed

text \<open>
  Claim C7, as the code has it. For every location of the frame whose \<^verbatim>\<open>bipoi\<close> is
  strictly positive and whose building category is one of the seven the lookup assigns,
  exactly one of the fourteen \<^verbatim>\<open>bipoi_cat\<close> statements applies, and \<^verbatim>\<open>get_bi_poi\<close>
  leaves its value; for every location whose first-floor height is not negative, the
  height in metres is not negative, exactly one of the eight \<^verbatim>\<open>ffh_cat\<close> statements
  applies to it, and \<^verbatim>\<open>get_first_floor_height\<close> leaves its value.
\<close>

theorem bins_partition:
  assumes "i < length loc_df"
  shows "(0 < bipoi (loc_df ! i)
          \<and> (residential_cat (building_cat (loc_df ! i)) \<or> nonres_cat (building_cat (loc_df ! i)))
          \<longrightarrow> (\<exists>b. filter (bipoi_bucket_applies (loc_df ! i)) bipoi_buckets = [b]
                  \<and> bipoi_cat (get_bi_poi loc_df ! i) = Some (snd (snd b))))
       \<and> (0 \<le> firstfloorheight (loc_df ! i)
          \<longrightarrow> 0 \<le> firstfloorheight (get_first_floor_height loc_df ! i)
              \<and> (\<exists>b. filter (ffh_bucket_applies (get_first_floor_height loc_df ! i)) ffh_buckets = [b]
                      \<and> ffh_cat (get_first_floor_height loc_df ! i) = Some (snd b)))"
proof (intro conjI impI)
  assume a: "0 < bipoi (loc_df ! i)
      \<and> (residential_cat (building_cat (loc_df ! i)) \<or> nonres_cat (building_cat (loc_df ! i)))"
  then obtain b where b: "filter (bipoi_bucket_applies (loc_df ! i)) bipoi_buckets = [b]"
    using residential_one_bucket nonres_one_bucket by blast
  have "bipoi_cat (get_bi_poi loc_df ! i) = Some (snd (snd b))"
    using assms b by (simp add: get_bi_poi_map foldl_bipoi_cat)
  with b show "\<exists>b. filter (bipoi_bucket_applies (loc_df ! i)) bipoi_buckets = [b]
      \<and> bipoi_cat (get_bi_poi loc_df ! i) = Some (snd (snd b))"
    by blast
next
  assume h: "0 \<le> firstfloorheight (loc_df ! i)"
  obtain g where g: "\<And>df. get_first_floor_height df = map (\<lambda>r. foldl ffh_step (g r) ffh_buckets) df"
    and pos: "\<And>r. 0 \<le> firstfloorheight r \<Longrightarrow> 0 \<le> firstfloorheight (g r)"
    using get_first_floor_height_map by blast
  let ?r = "get_first_floor_height loc_df ! i"
  have r: "?r = foldl ffh_step (g (loc_df ! i)) ffh_buckets"
    using assms by (simp add: g)
  show p: "0 \<le> firstfloorheight ?r"
    using pos [OF h] by (simp add: r)
  then obtain b where b: "filter (ffh_bucket_applies ?r) ffh_buckets = [b]"
    using ffh_one_bucket by blast
  then have b': "filter (ffh_bucket_applies (g (loc_df ! i))) ffh_buckets = [b]"
    by (simp add: r)
  have "ffh_cat ?r = Some (snd b)"
    unfolding r by (simp add: foldl_ffh_cat b')
  with b show "\<exists>b. filter (ffh_bucket_applies ?r) ffh_buckets = [b] \<and> ffh_cat ?r = Some (snd b)"
    by blast
qed

theorem bins_partition_witness:
  "bipoi_cat (get_bi_poi [example_key\<lparr>bipoi_cat := None\<rparr>] ! 0) = Some 183
   \<and> ffh_cat (get_first_floor_height [example_key\<lparr>firstfloorheight := 1, ffh_cat := None\<rparr>] ! 0)
       = Some 0.25"
proof -
  let ?df = "[example_key\<lparr>bipoi_cat := None\<rparr>]"
  let ?df' = "[example_key\<lparr>firstfloorheight := 1, ffh_cat := None\<rparr>]"
  have f: "filter (bipoi_bucket_applies (?df ! 0)) bipoi_buckets = [(\<lambda>b. b > 183, residential_cat, 183)]"
    by (simp add: example_key_def bipoi_buckets_def bipoi_bucket_applies_def residential_cat_def
        nonres_cat_def)
  have one: "bipoi_cat (get_bi_poi ?df ! 0) = Some 183"
    using bins_partition [of 0 ?df] f
    by (simp add: example_key_def residential_cat_def)
  have h: "firstfloorheight (get_first_floor_height ?df' ! 0) = 0.3048"
    by (simp add: get_first_floor_height_def Let_def assign_where_def ffh_buckets_def
        ffh_bucket_applies_def example_key_def)
  have "filter (ffh_bucket_applies (get_first_floor_height ?df' ! 0)) ffh_buckets
          = [(\<lambda>h. h \<ge> 0.25 \<and> h < 0.35, 0.25)]"
    by (simp add: ffh_buckets_def ffh_bucket_applies_def h)
  then have two: "ffh_cat (get_first_floor_height ?df' ! 0) = Some 0.25"
    using bins_partition [of 0 ?df'] by (simp add: example_key_def)
  show ?thesis
    using one two by simp
qed

text \<open>
  Claim C7, as stated, fails at \<^verbatim>\<open>bipoi = 0\<close>: the field defaults keep a zero of a
  float column, no \<^verbatim>\<open>bipoi_cat\<close> statement applies to it (the lowest buckets of both
  ladders start above zero), and \<^verbatim>\<open>bipoi_cat\<close> stays unset.
\<close>

theorem bipoi_zero_counterexample:
  "default_float [''bipoi''] ''bipoi'' 365 (Some 0) = 0
   \<and> residential_cat (building_cat (example_key\<lparr>bipoi := 0, bipoi_cat := None\<rparr>))
   \<and> filter (bipoi_bucket_applies (example_key\<lparr>bipoi := 0, bipoi_cat := None\<rparr>)) bipoi_buckets = []
   \<and> bipoi_cat (get_bi_poi [example_key\<lparr>bipoi := 0, bipoi_cat := None\<rparr>] ! 0) = None"
proof -
  have f: "filter (bipoi_bucket_applies (example_key\<lparr>bipoi := 0, bipoi_cat := None\<rparr>)) bipoi_buckets = []"
    by (simp add: example_key_def bipoi_buckets_def bipoi_bucket_applies_def)
  show ?thesis
    by (simp add: f get_bi_poi_map foldl_bipoi_cat default_float_def)
      (simp add: example_key_def residential_cat_def)
qed

subsection \<open>Suppression for business interruption\<close>

lemma suppression_map:
  "sort_peril_types (remove_lookup_values keys_df)
     = map (\<lambda>k. hd (sort_peril_types (remove_lookup_values [k]))) keys_df"
  by (simp add: sort_peril_types_def remove_lookup_values_def assign_where_def Let_def)

lemma suppression_coverage:
  "coveragetype_id (hd (sort_peril_types (remove_lookup_values [k]))) = coveragetype_id k"
  by (simp add: sort_peril_types_def remove_lookup_values_def assign_where_def Let_def)

lemma suppression_bi:
  "coveragetype_id k = Some COVERAGE_bi \<Longrightarrow>
   floorsoccupied (hd (sort_peril_types (remove_lookup_values [k]))) = IntCell (- 9999)
   \<and> numberofstoreys (hd (sort_peril_types (remove_lookup_values [k]))) = 0
   \<and> peril_type (hd (sort_peril_types (remove_lookup_values [k]))) = Some ''ORF;OSF;WSS''"
  by (simp add: sort_peril_types_def remove_lookup_values_def assign_where_def Let_def id_defs)

text \<open>
  Claim C6. After "remove values that would screw up lookup" and "sort out peril types
  for merge", every key of the frame whose coverage is bi has \<^verbatim>\<open>floorsoccupied\<close> -9999,
  \<^verbatim>\<open>numberofstoreys\<close> 0 and the peril type \<^verbatim>\<open>ORF;OSF;WSS\<close>, whatever its building
  category.
\<close>

theorem bi_suppression:
  assumes "k' \<in> set (sort_peril_types (remove_lookup_values keys_df))"
    and "coveragetype_id k' = Some COVERAGE_bi"
  shows "floorsoccupied k' = IntCell (- 9999) \<and> numberofstoreys k' = 0
         \<and> peril_type k' = Some ''ORF;OSF;WSS''"
proof -
  obtain k where k: "k' = hd (sort_peril_types (remove_lookup_values [k]))"
    using assms(1) by (subst (asm) suppression_map) auto
  have "coveragetype_id k = Some COVERAGE_bi"
    using assms(2) by (simp add: k suppression_coverage)
  then show ?thesis
    unfolding k by (rule suppression_bi)
qed

theorem bi_suppression_witness:
  "(let k' = hd (sort_peril_types (remove_lookup_values
                   [example_key\<lparr>coveragetype_id := Some 4, building_cat := Some ''flat''\<rparr>]))
    in coveragetype_id k' = Some COVERAGE_bi \<and> floorsoccupied k' = IntCell (- 9999)
       \<and> numberofstoreys k' = 0 \<and> peril_type k' = Some ''ORF;OSF;WSS'')"
proof -
  let ?df = "[example_key\<lparr>coveragetype_id := Some 4, building_cat := Some ''flat''\<rparr>]"
  let ?k = "hd (sort_peril_types (remove_lookup_values ?df))"
  have m: "?k \<in> set (sort_peril_types (remove_lookup_values ?df))"
    by (subst (2) suppression_map) simp
  have c: "coveragetype_id ?k = Some COVERAGE_bi"
    by (simp add: suppression_coverage COVERAGE_bi_def)
  show ?thesis
    using bi_suppression [OF m c] c by (simp add: Let_def)
qed

subsection \<open>Peril groups and key expansion\<close>

lemma get_peril_map: "get_peril loc_df = map (\<lambda>r. hd (get_peril [r])) loc_df"
  by (simp add: get_peril_def assign_where_def Let_def)

lemma get_peril_resolved:
  "locperilscovered (hd (get_peril [r])) =
     (if locperilscovered r = ''AA1'' then ''ORF;OSF;WSS''
      else if locperilscovered r = ''OO1'' then ''ORF;OSF''
      else if locperilscovered r = ''WW1'' then ''WSS''
      else locperilscovered r)"
  by (simp add: get_peril_def assign_where_def Let_def id_defs)

lemma expand_keys_blocks:
  "expand_keys df =
     key_block ''ORF'' 1 df @ key_block ''ORF'' 3 df @ key_block ''ORF'' 4 df
     @ key_block ''OSF'' 1 df @ key_block ''OSF'' 3 df @ key_block ''OSF'' 4 df
     @ key_block ''WSS'' 1 df @ key_block ''WSS'' 3 df @ key_block ''WSS'' 4 df"
  by (simp add: expand_keys_def key_block_def perils_def coverages_def id_defs filter_map comp_def)

lemma filter_key_block:
  "filter (\<lambda>k. peril_id k = Some p \<and> coveragetype_id k = Some c) (key_block p' c' df)
     = (if p = p' \<and> c = c' then key_block p' c' df else [])"
proof (cases "p = p' \<and> c = c'")
  case True
  then show ?thesis
    by (simp add: key_block_def filter_map comp_def)
next
  case False
  then have "\<And>r. \<not> (p' = p \<and> c' = c)" by auto
  then show ?thesis
    using False by (simp add: key_block_def filter_map comp_def; blast)
qed

lemma length_key_block:
  "length (key_block p c [r]) = (if str_contains (locperilscovered r) p then 1 else 0)"
  by (simp add: key_block_def)

lemma set_key_block:
  "k \<in> set (key_block p c df) \<Longrightarrow> peril_id k = Some p \<and> coveragetype_id k = Some c"
  by (auto simp: key_block_def)

lemma expand_keys_mem:
  "k \<in> set (expand_keys df) \<Longrightarrow>
   \<exists>p \<in> set perils. \<exists>c \<in> set coverages. k \<in> set (key_block p c df)"
  unfolding expand_keys_def key_block_def by (auto simp: filter_map comp_def)

lemma filter_expand_keys:
  assumes "p = ''ORF'' \<or> p = ''OSF'' \<or> p = ''WSS''" "c = 1 \<or> c = 3 \<or> c = 4"
  shows "filter (\<lambda>k. peril_id k = Some p \<and> coveragetype_id k = Some c) (expand_keys df)
      = key_block p c df"
proof -
  consider "p = ''ORF''" | "p = ''OSF''" | "p = ''WSS''" using assms(1) by blast
  then show ?thesis
  proof cases
    case 1
    show ?thesis using assms(2) unfolding 1 expand_keys_blocks
      by (elim disjE) (simp_all add: filter_key_block)
  next
    case 2
    show ?thesis using assms(2) unfolding 2 expand_keys_blocks
      by (elim disjE) (simp_all add: filter_key_block)
  next
    case 3
    show ?thesis using assms(2) unfolding 3 expand_keys_blocks
      by (elim disjE) (simp_all add: filter_key_block)
  qed
qed

text \<open>
  Claim C5. \<^verbatim>\<open>get_peril\<close> rewrites the three peril-group codes and leaves any other
  value as it is. Of the frame so resolved, the loop "get keys df" emits, for each of
  the 3 perils and 3 coverages, exactly the locations whose covered-peril string
  contains the peril id, each once, with that peril and coverage; every key carries one
  of the 3 perils and one of the 3 coverages. So one location gives 3 keys per covered
  peril, at most 9.
\<close>

theorem key_expansion:
  "(p \<in> set perils \<and> c \<in> set coverages \<longrightarrow>
      filter (\<lambda>k. peril_id k = Some p \<and> coveragetype_id k = Some c) (expand_keys (get_peril loc_df))
        = map (\<lambda>r. r\<lparr>coveragetype_id := Some c, peril_id := Some p\<rparr>)
            (filter (\<lambda>r. str_contains (locperilscovered r) p) (get_peril loc_df)))
   \<and> (\<forall>k \<in> set (expand_keys (get_peril loc_df)).
         \<exists>p \<in> set perils. \<exists>c \<in> set coverages. peril_id k = Some p \<and> coveragetype_id k = Some c)
   \<and> length (expand_keys (get_peril [r]))
        = 3 * length (filter (str_contains (locperilscovered (hd (get_peril [r])))) perils)
   \<and> length (expand_keys (get_peril [r])) \<le> 9
   \<and> locperilscovered (hd (get_peril [r])) =
        (if locperilscovered r = ''AA1'' then ''ORF;OSF;WSS''
         else if locperilscovered r = ''OO1'' then ''ORF;OSF''
         else if locperilscovered r = ''WW1'' then ''WSS''
         else locperilscovered r)"
proof (intro conjI impI ballI)
  assume "p \<in> set perils \<and> c \<in> set coverages"
  then have "p = ''ORF'' \<or> p = ''OSF'' \<or> p = ''WSS''" "c = 1 \<or> c = 3 \<or> c = 4"
    by (simp_all add: perils_def coverages_def id_defs)
  then show "filter (\<lambda>k. peril_id k = Some p \<and> coveragetype_id k = Some c) (expand_keys (get_peril loc_df))
        = map (\<lambda>r. r\<lparr>coveragetype_id := Some c, peril_id := Some p\<rparr>)
            (filter (\<lambda>r. str_contains (locperilscovered r) p) (get_peril loc_df))"
    by (simp add: filter_expand_keys key_block_def)
next
  fix k assume "k \<in> set (expand_keys (get_peril loc_df))"
  then obtain p c where "p \<in> set perils" "c \<in> set coverages"
      "k \<in> set (key_block p c (get_peril loc_df))"
    using expand_keys_mem by blast
  then show "\<exists>p \<in> set perils. \<exists>c \<in> set coverages. peril_id k = Some p \<and> coveragetype_id k = Some c"
    using set_key_block by blast
next
  have g: "get_peril [r] = [hd (get_peril [r])]"
    by (subst get_peril_map) simp
  show len: "length (expand_keys (get_peril [r]))
        = 3 * length (filter (str_contains (locperilscovered (hd (get_peril [r])))) perils)"
    by (subst g) (simp add: expand_keys_blocks length_key_block perils_def id_defs)
  show "length (expand_keys (get_peril [r])) \<le> 9"
    unfolding len by (simp add: perils_def)
  show "locperilscovered (hd (get_peril [r])) =
        (if locperilscovered r = ''AA1'' then ''ORF;OSF;WSS''
         else if locperilscovered r = ''OO1'' then ''ORF;OSF''
         else if locperilscovered r = ''WW1'' then ''WSS''
         else locperilscovered r)"
    by (rule get_peril_resolved)
qed

lemma contains_eval:
  "str_contains ''ORF;OSF'' ''ORF''" "str_contains ''ORF;OSF'' ''OSF''"
  "\<not> str_contains ''ORF;OSF'' ''WSS''"
  by (simp_all add: str_contains_def sublist_code)

theorem key_expansion_witness:
  "length (expand_keys (get_peril [example_key\<lparr>locperilscovered := ''OO1''\<rparr>])) = 6
   \<and> filter (\<lambda>k. peril_id k = Some ''OSF'' \<and> coveragetype_id k = Some 3)
         (expand_keys (get_peril [example_key\<lparr>locperilscovered := ''OO1''\<rparr>]))
       = [example_key\<lparr>locperilscovered := ''ORF;OSF'', coveragetype_id := Some 3,
                       peril_id := Some ''OSF''\<rparr>]"
proof -
  let ?r = "example_key\<lparr>locperilscovered := ''OO1''\<rparr>"
  have g: "get_peril [?r] = [example_key\<lparr>locperilscovered := ''ORF;OSF''\<rparr>]"
    by (simp add: get_peril_def assign_where_def Let_def id_defs example_key_def)
  have pc: "''OSF'' \<in> set perils \<and> 3 \<in> set coverages"
    by (simp add: perils_def coverages_def id_defs)
  show ?thesis
    using key_expansion [of "''OSF''" 3 "[?r]" ?r] pc
    by (simp add: g contains_eval perils_def id_defs)
qed

subsection \<open>The vulnerability join\<close>

lemma assigned_vulnerability_ids:
  "map vulnerability_id (fill_vulnerability_id (get_latlon_ids (merge_vulnerability V [k])))
     = (case filter (vulnerability_matches k) V of
          [] \<Rightarrow> [Some (- 1)]
        | m # ms \<Rightarrow> map (\<lambda>v. Some (v_vulnerability_id v)) (m # ms))"
  by (simp add: fill_vulnerability_id_def get_latlon_ids_def merge_vulnerability_def merge_left_def
      Let_def fillna_def comp_def split: list.splits)

lemma merge_vulnerability_concat:
  "merge_vulnerability V keys_df = concat (map (\<lambda>k. merge_vulnerability V [k]) keys_df)"
  by (simp add: merge_vulnerability_def merge_left_def)

lemma init_group_row:
  "v_peril_type v = PerilCode (- 9999) \<Longrightarrow>
   v_peril_type (hd (init_vulnerability_df [v])) = PerilStr ''ORF;OSF;WSS''"
  by (simp add: init_vulnerability_df_def assign_where_def Let_def id_defs)

text \<open>
  Claim C2, as the code has it. The merge is an equality join on (mcm\_code,
  coveragetype\_id, peril\_type, user\_vulnerability\_id): a key gets one row per
  table row equal to it on these four columns, with that row's vulnerability id, and
  one row with vulnerability id -1 when there is none. The peril types are compared as
  strings: the table row read with the code -9999 carries \<^verbatim>\<open>ORF;OSF;WSS\<close> and is
  matched by the keys whose own peril type is that string.
\<close>

theorem vulnerability_join:
  "(filter (vulnerability_matches k) V = [] \<longrightarrow>
      map vulnerability_id (fill_vulnerability_id (get_latlon_ids (merge_vulnerability V [k])))
        = [Some (- 1)])
   \<and> (filter (vulnerability_matches k) V \<noteq> [] \<longrightarrow>
      map vulnerability_id (fill_vulnerability_id (get_latlon_ids (merge_vulnerability V [k])))
        = map (\<lambda>v. Some (v_vulnerability_id v)) (filter (vulnerability_matches k) V))
   \<and> (vulnerability_matches k v \<longleftrightarrow>
        mcm_code k = Some (v_mcm_code v) \<and> coveragetype_id k = Some (v_coveragetype_id v)
        \<and> (\<exists>s. peril_type k = Some s \<and> v_peril_type v = PerilStr s)
        \<and> user_vulnerability_id k = v_user_vulnerability_id v)
   \<and> (v_peril_type v = PerilCode (- 9999) \<longrightarrow>
        v_peril_type (hd (init_vulnerability_df [v])) = PerilStr ''ORF;OSF;WSS'')
   \<and> merge_vulnerability V keys_df = concat (map (\<lambda>k. merge_vulnerability V [k]) keys_df)"
proof (intro conjI impI)
  show "vulnerability_matches k v \<longleftrightarrow>
        mcm_code k = Some (v_mcm_code v) \<and> coveragetype_id k = Some (v_coveragetype_id v)
        \<and> (\<exists>s. peril_type k = Some s \<and> v_peril_type v = PerilStr s)
        \<and> user_vulnerability_id k = v_user_vulnerability_id v"
    by (cases "peril_type k") (auto simp: vulnerability_matches_def)
qed (simp_all add: assigned_vulnerability_ids init_group_row merge_vulnerability_concat [symmetric]
      split: list.splits)

theorem vulnerability_join_witness:
  "map vulnerability_id (fill_vulnerability_id (get_latlon_ids
      (merge_vulnerability (init_vulnerability_df [example_group_row])
         [example_key\<lparr>coveragetype_id := Some 1, peril_type := Some ''ORF;OSF;WSS''\<rparr>])))
     = [Some 104]
   \<and> map vulnerability_id (fill_vulnerability_id (get_latlon_ids
      (merge_vulnerability [] [example_key]))) = [Some (- 1)]"
proof -
  let ?V = "init_vulnerability_df [example_group_row]"
  let ?k = "example_key\<lparr>coveragetype_id := Some 1, peril_type := Some ''ORF;OSF;WSS''\<rparr>"
  have V: "?V = [example_group_row\<lparr>v_peril_type := PerilStr ''ORF;OSF;WSS''\<rparr>]"
    by (simp add: init_vulnerability_df_def assign_where_def Let_def id_defs example_group_row_def)
  have f: "filter (vulnerability_matches ?k) ?V
      = [example_group_row\<lparr>v_peril_type := PerilStr ''ORF;OSF;WSS''\<rparr>]"
    unfolding V by (simp add: vulnerability_matches_def example_key_def example_group_row_def)
  have ne: "filter (vulnerability_matches ?k) ?V \<noteq> []"
    unfolding f by simp
  have one: "map vulnerability_id (fill_vulnerability_id (get_latlon_ids (merge_vulnerability ?V [?k])))
      = [Some 104]"
    using vulnerability_join [of ?k ?V, THEN conjunct2, THEN conjunct1, THEN mp, OF ne]
    unfolding f by (simp add: example_group_row_def)
  have two: "map vulnerability_id (fill_vulnerability_id (get_latlon_ids
      (merge_vulnerability [] [example_key]))) = [Some (- 1)]"
    using vulnerability_join [of example_key "[]", THEN conjunct1] by simp
  show ?thesis
    using one two by (rule conjI)
qed

text \<open>
  Claim C2, as stated, fails: a key of the single peril \<^verbatim>\<open>ORF\<close> that agrees with an
  all-perils table row on the other three columns is not matched by it, although the
  row's \<^verbatim>\<open>ORF;OSF;WSS\<close> contains \<^verbatim>\<open>ORF\<close>, and ends with vulnerability id -1.
\<close>

theorem single_peril_group_counterexample:
  "str_contains ''ORF;OSF;WSS'' ''ORF''
   \<and> peril_type example_key = Some ''ORF''
   \<and> map v_peril_type (init_vulnerability_df [example_group_row]) = [PerilStr ''ORF;OSF;WSS'']
   \<and> mcm_code example_key = Some (v_mcm_code example_group_row)
   \<and> coveragetype_id example_key = Some (v_coveragetype_id example_group_row)
   \<and> user_vulnerability_id example_key = v_user_vulnerability_id example_group_row
   \<and> map vulnerability_id (fill_vulnerability_id (get_latlon_ids
        (merge_vulnerability (init_vulnerability_df [example_group_row]) [example_key])))
       = [Some (- 1)]"
proof -
  have V: "init_vulnerability_df [example_group_row]
      = [example_group_row\<lparr>v_peril_type := PerilStr ''ORF;OSF;WSS''\<rparr>]"
    by (simp add: init_vulnerability_df_def assign_where_def Let_def id_defs example_group_row_def)
  have f: "filter (vulnerability_matches example_key) (init_vulnerability_df [example_group_row]) = []"
    unfolding V by (simp add: vulnerability_matches_def example_key_def example_group_row_def)
  have c: "str_contains ''ORF;OSF;WSS'' ''ORF''"
    by (simp add: str_contains_def sublist_code)
  have t: "map v_peril_type (init_vulnerability_df [example_group_row]) = [PerilStr ''ORF;OSF;WSS'']"
    unfolding V by simp
  have e: "peril_type example_key = Some ''ORF''"
      "mcm_code example_key = Some (v_mcm_code example_group_row)"
      "coveragetype_id example_key = Some (v_coveragetype_id example_group_row)"
      "user_vulnerability_id example_key = v_user_vulnerability_id example_group_row"
    by (simp_all add: example_key_def example_group_row_def)
  have m: "map vulnerability_id (fill_vulnerability_id (get_latlon_ids
        (merge_vulnerability (init_vulnerability_df [example_group_row]) [example_key])))
       = [Some (- 1)]"
    by (simp add: assigned_vulnerability_ids f)
  show ?thesis
    using c e t m by (intro conjI)
qed

end
